theory Spec2Isabelle
  imports Complex_Main "HOL-Library.Word"
begin

section \<open>Python values\<close>

text \<open>
  A Python \<open>str\<close> is modelled by its UTF-8 encoding, a \<open>string\<close> of bytes: the
  program only builds strings by concatenation, and the encoding of a concatenation is the
  concatenation of the encodings. A \<open>bytes\<close> object is a list of 8-bit words, and a
  Python \<open>float\<close> is its IEEE-754 binary64 bit pattern.
\<close>

type_synonym byte = "8 word"
type_synonym pyfloat = "64 word"

text \<open>
  What \<open>resp.json()\<close> returns, and what the price table is made of: \<open>None\<close>,
  \<open>bool\<close>, \<open>int\<close>, \<open>float\<close>, \<open>str\<close>, \<open>list\<close> and \<open>dict\<close> with string keys
  (an association list in insertion order, looked up with \<open>map_of\<close>).
\<close>

datatype json =
    JNull
  | JBool bool
  | JInt int
  | JFloat pyfloat
  | JStr string
  | JArr "json list"
  | JObj "(string \<times> json) list"

text \<open>The exceptions the handler can end with.\<close>

datatype error =
    TransportError
  | JSONDecodeError
  | KeyError string
  | TypeError
  | IndexError
  | AttributeError
  | CompletionError string

text \<open>
  \<open>repr\<close> of a \<open>float\<close> and of a \<open>str\<close> belong to the Python runtime (shortest
  round-trip digits, quote selection and escapes by Unicode category); the model takes
  them as the two fields of this record.
\<close>

record py =
  float_repr :: "pyfloat \<Rightarrow> string"
  str_repr :: "string \<Rightarrow> string"

text \<open>Truth value of an object, as \<open>if weather\<close> tests it.\<close>

fun truthy :: "json \<Rightarrow> bool" where
  "truthy JNull = False"
| "truthy (JBool b) = b"
| "truthy (JInt i) = (i \<noteq> 0)"
| "truthy (JFloat f) = (f \<noteq> 0 \<and> f \<noteq> 0x8000000000000000)"
| "truthy (JStr s) = (s \<noteq> [])"
| "truthy (JArr xs) = (xs \<noteq> [])"
| "truthy (JObj kvs) = (kvs \<noteq> [])"

text \<open>
  \<open>obj[key]\<close> with a string key: a \<open>dict\<close> gives the value or raises \<open>KeyError\<close>;
  every other value raises \<open>TypeError\<close>.
\<close>

fun getitem :: "json \<Rightarrow> string \<Rightarrow> error + json" where
  "getitem (JObj kvs) k = (case map_of kvs k of None \<Rightarrow> Inl (KeyError k) | Some v \<Rightarrow> Inr v)"
| "getitem _ k = Inl TypeError"

text \<open>Decimal digits of a natural number, and \<open>str\<close> of an \<open>int\<close>.\<close>

definition digit_char :: "nat \<Rightarrow> char" where
  "digit_char d = ''0123456789'' ! d"

fun digits :: "nat \<Rightarrow> string" where
  "digits n = (if n < 10 then [digit_char n] else digits (n div 10) @ [digit_char (n mod 10)])"

declare digits.simps [simp del]

definition str_int :: "int \<Rightarrow> string" where
  "str_int i = (if i < 0 then CHR ''-'' # digits (nat (- i)) else digits (nat i))"

text \<open>\<open>sep.join(xs)\<close>.\<close>

fun join :: "string \<Rightarrow> string list \<Rightarrow> string" where
  "join sep [] = []"
| "join sep [x] = x"
| "join sep (x # y # ys) = x @ sep @ join sep (y # ys)"

text \<open>\<open>repr\<close> of a value, and \<open>str\<close>, which an f-string applies to a field.\<close>

fun py_repr :: "py \<Rightarrow> json \<Rightarrow> string" where
  "py_repr p JNull = ''None''"
| "py_repr p (JBool b) = (if b then ''True'' else ''False'')"
| "py_repr p (JInt i) = str_int i"
| "py_repr p (JFloat f) = float_repr p f"
| "py_repr p (JStr s) = str_repr p s"
| "py_repr p (JArr xs) = ''['' @ join '', '' (map (py_repr p) xs) @ '']''"
| "py_repr p (JObj kvs) =
     ''{'' @ join '', '' (map (\<lambda>kv. str_repr p (fst kv) @ '': '' @ py_repr p (snd kv)) kvs) @ ''}''"

fun py_str :: "py \<Rightarrow> json \<Rightarrow> string" where
  "py_str p (JStr s) = s"
| "py_str p v = py_repr p v"

section \<open>base64.b64encode\<close>

definition b64_alphabet :: string where
  "b64_alphabet = ''ABCDEFGHIJKLMNOPQRSTUVWXYZabcdefghijklmnopqrstuvwxyz0123456789+/''"

definition b64_char :: "nat \<Rightarrow> char" where
  "b64_char n = b64_alphabet ! (n mod 64)"

fun b64encode :: "byte list \<Rightarrow> string" where
  "b64encode [] = []"
| "b64encode [a] =
     (let n = unat a * 65536
      in [b64_char (n div 262144), b64_char (n div 4096), CHR ''='', CHR ''=''])"
| "b64encode [a, b] =
     (let n = unat a * 65536 + unat b * 256
      in [b64_char (n div 262144), b64_char (n div 4096), b64_char (n div 64), CHR ''=''])"
| "b64encode (a # b # c # rest) =
     (let n = unat a * 65536 + unat b * 256 + unat c
      in [b64_char (n div 262144), b64_char (n div 4096), b64_char (n div 64), b64_char n])
     @ b64encode rest"


section \<open>Data of the service\<close>

text \<open>
  An uploaded file (\<open>UploadFile\<close>): its name, its declared media type and the bytes
  \<open>await image.read()\<close> returns. The class defines neither \<open>__bool__\<close> nor
  \<open>__len__\<close>, so an \<open>UploadFile\<close> object is true whatever it holds; \<open>image\<close> is
  \<open>None\<close> when the form has no such file.
\<close>

record upload =
  filename :: string
  content_type :: string
  file_bytes :: "byte list"

text \<open>The parameters of \<open>chat\<close>, after the framework has applied the form defaults.\<close>

record request =
  message :: string
  language :: string
  image :: "upload option"
  latitude :: pyfloat
  longitude :: pyfloat

text \<open>
  A message of the completion request is a \<open>dict\<close> with the keys \<open>role\<close> and
  \<open>content\<close>; the content is a \<open>str\<close> or a list of parts, a part being
  \<open>{"type": "text", "text": t}\<close> or \<open>{"type": "image_url", "image_url": {"url": u}}\<close>.
\<close>

datatype part = TextPart string | ImageUrlPart string

datatype content = Text string | Parts "part list"

record chat_message =
  role :: string
  content :: content

text \<open>
  The keyword arguments of \<open>groq.chat.completions.create\<close>. \<open>call_stream\<close> and
  \<open>call_n\<close> are \<open>None\<close> when the argument is not passed, and the provider then
  answers with one completion, not streamed.
\<close>

record completion_call =
  call_model :: string
  call_messages :: "chat_message list"
  call_temperature :: real
  call_max_tokens :: int
  call_stream :: "bool option"
  call_n :: "int option"

text \<open>
  What the provider answers: \<open>choices[i].message.content\<close> (optional in the client
  library) and \<open>usage\<close> (optional too) with \<open>total_tokens\<close>.
\<close>

record choice =
  message_content :: "string option"

record completion_usage =
  total_tokens :: int

record completion =
  choices :: "choice list"
  usage :: "completion_usage option"

text \<open>
  The outcome of \<open>client.get(url)\<close>: the transport raises, or there is a response with
  a status code and a body, \<open>None\<close> when the body is not JSON (\<open>resp.json()\<close> raises).
\<close>

datatype http_outcome = TransportFailure | Response int "json option"

text \<open>The two external services, and the calls a request makes to them, in order.\<close>

record world =
  http_get :: "string \<Rightarrow> http_outcome"
  groq_create :: "completion_call \<Rightarrow> error + completion"

datatype event = HttpGet string | ChatCompletion completion_call

text \<open>
  The \<open>dict\<close> that \<open>chat\<close> returns, with the keys \<open>response\<close>, \<open>weather\<close>,
  \<open>prices\<close>, \<open>model\<close> and \<open>latency_ms\<close>.
\<close>

record chat_response =
  r_response :: "string option"
  r_weather :: json
  r_prices :: json
  r_model :: string
  r_latency_ms :: int

section \<open>The program\<close>

definition SYSTEM_PROMPT :: string where
  "SYSTEM_PROMPT =
     ''You are Kissan Dost ('' @ [CHR 0xDA, CHR 0xA9, CHR 0xD8, CHR 0xB3, CHR 0xD8, CHR 0xA7, CHR 0xD9, CHR 0x86] @ '' '' @ [CHR 0xD8, CHR 0xAF, CHR 0xD9, CHR 0x88, CHR 0xD8, CHR 0xB3, CHR 0xD8, CHR 0xAA] @ ''), an expert Agricultural Advisor AI for Pakistani farmers.\<newline>'' @
     ''\<newline>'' @
     ''MISSION: Eliminate information asymmetry, maximize yield, profitability, and climate resilience.\<newline>'' @
     ''\<newline>'' @
     ''ALWAYS structure your response in EXACTLY this format with these three sections:\<newline>'' @
     ''\<newline>'' @
     ''## I. '' @ [CHR 0xD9, CHR 0x81, CHR 0xD9, CHR 0x88, CHR 0xD8, CHR 0xB1, CHR 0xDB, CHR 0x8C] @ '' '' @ [CHR 0xDB, CHR 0x81, CHR 0xD8, CHR 0xAF, CHR 0xD8, CHR 0xA7, CHR 0xDB, CHR 0x8C, CHR 0xD8, CHR 0xAA] @ '' (Immediate Action)\<newline>'' @
     ''[Critical steps the farmer must take RIGHT NOW - be specific and urgent]\<newline>'' @
     ''\<newline>'' @
     ''## II. '' @ [CHR 0xD8, CHR 0xAA, CHR 0xD9, CHR 0x81, CHR 0xD8, CHR 0xB5, CHR 0xDB, CHR 0x8C, CHR 0xD9, CHR 0x84, CHR 0xDB, CHR 0x8C] @ '' '' @ [CHR 0xD8, CHR 0xAA, CHR 0xD8, CHR 0xAC, CHR 0xD9, CHR 0x88, CHR 0xDB, CHR 0x8C, CHR 0xD8, CHR 0xB2] @ '' (Detailed Recommendation)\<newline>'' @
     ''[Numbered comprehensive advice including:\<newline>'' @
     ''- Specific chemical names and dosages (e.g., Mancozeb 75% WP @ 2.5g/L)\<newline>'' @
     ''- Organic alternatives\<newline>'' @
     ''- Application timing and frequency\<newline>'' @
     ''- Prevention measures]\<newline>'' @
     ''\<newline>'' @
     ''## III. '' @ [CHR 0xD9, CHR 0x85, CHR 0xD9, CHR 0x86, CHR 0xDA, CHR 0x88, CHR 0xDB, CHR 0x8C] @ '' '' @ [CHR 0xD8, CHR 0xA8, CHR 0xDA, CHR 0xBE, CHR 0xD8, CHR 0xA7, CHR 0xD8, CHR 0xA4] @ '' '' @ [CHR 0xD8, CHR 0xA7, CHR 0xD9, CHR 0x88, CHR 0xD8, CHR 0xB1] @ '' '' @ [CHR 0xD9, CHR 0x85, CHR 0xD9, CHR 0x88, CHR 0xD8, CHR 0xB3, CHR 0xD9, CHR 0x85, CHR 0xDB, CHR 0x8C] @ '' '' @ [CHR 0xD8, CHR 0xB3, CHR 0xDB, CHR 0x8C, CHR 0xD8, CHR 0xA7, CHR 0xD9, CHR 0x82] @ '' (Market & Climate Context)\<newline>'' @
     ''[Include:\<newline>'' @
     ''- Current estimated market rates for relevant crops in PKR\<newline>'' @
     ''- Weather-related advice\<newline>'' @
     ''- Best time to sell]\<newline>'' @
     ''\<newline>'' @
     ''RULES:\<newline>'' @
     ''- Respond in the SAME LANGUAGE as the query (Urdu/Punjabi/English/Sindhi)\<newline>'' @
     ''- Be confident, direct, actionable - NO filler\<newline>'' @
     ''- Include specific product names available in Pakistan\<newline>'' @
     ''- Never ask clarifying questions - provide complete advice immediately\<newline>'' @
     ''- Use local Pakistani agricultural context and available products''"

text \<open>Sequencing of steps that may raise.\<close>

definition and_then :: "error + 'a \<Rightarrow> ('a \<Rightarrow> error + 'b) \<Rightarrow> error + 'b" where
  "and_then r f = (case r of Inl e \<Rightarrow> Inl e | Inr x \<Rightarrow> f x)"

definition weather_url :: "py \<Rightarrow> pyfloat \<Rightarrow> pyfloat \<Rightarrow> string" where
  "weather_url p lat lon =
     ''https://api.open-meteo.com/v1/forecast?latitude='' @ float_repr p lat @
     ''&longitude='' @ float_repr p lon @
     ''&current=temperature_2m,relative_humidity_2m,precipitation'' @
     ''&daily=precipitation_sum&timezone=Asia/Karachi''"

definition get_weather :: "py \<Rightarrow> world \<Rightarrow> pyfloat \<Rightarrow> pyfloat \<Rightarrow> event list \<times> (error + json)" where
  "get_weather p w lat lon =
     (let url = weather_url p lat lon
      in ([HttpGet url],
          case http_get w url of
            TransportFailure \<Rightarrow> Inl TransportError
          | Response status_code body \<Rightarrow>
              if status_code = 200
              then (case body of None \<Rightarrow> Inl JSONDecodeError | Some j \<Rightarrow> Inr j)
              else Inr JNull))"

definition get_mandi_prices :: json where
  "get_mandi_prices = JObj
     [(''wheat'', JObj [(''price'', JInt 4200), (''unit'', JStr ''40kg''), (''trend'', JStr ''up'')]),
      (''cotton'', JObj [(''price'', JInt 8500), (''unit'', JStr ''40kg''), (''trend'', JStr ''stable'')]),
      (''rice'', JObj [(''price'', JInt 5800), (''unit'', JStr ''40kg''), (''trend'', JStr ''up'')]),
      (''sugarcane'', JObj [(''price'', JInt 350), (''unit'', JStr ''40kg''), (''trend'', JStr ''stable'')]),
      (''maize'', JObj [(''price'', JInt 2800), (''unit'', JStr ''40kg''), (''trend'', JStr ''down'')])]"

text \<open>
  The f-string of \<open>context\<close>; its fields are evaluated from left to right, and each
  subscript may raise.
\<close>

definition build_context :: "py \<Rightarrow> json \<Rightarrow> json \<Rightarrow> error + string" where
  "build_context p weather prices =
     and_then (if truthy weather then getitem weather ''current'' else Inr (JStr ''N/A'')) (\<lambda>cur.
     and_then (and_then (getitem prices ''wheat'') (\<lambda>e. getitem e ''price'')) (\<lambda>wheat_price.
     and_then (and_then (getitem prices ''wheat'') (\<lambda>e. getitem e ''unit'')) (\<lambda>wheat_unit.
     and_then (and_then (getitem prices ''cotton'') (\<lambda>e. getitem e ''price'')) (\<lambda>cotton_price.
     and_then (and_then (getitem prices ''rice'') (\<lambda>e. getitem e ''price'')) (\<lambda>rice_price.
     Inr (''\<newline>Current Weather: '' @ py_str p cur @
          ''\<newline>Mandi Prices (PKR): Wheat: '' @ py_str p wheat_price @ ''/'' @
          py_str p wheat_unit @ '', \<newline>Cotton: '' @ py_str p cotton_price @
          '', Rice: '' @ py_str p rice_price @ ''\<newline>''))))))"

text \<open>
  The handler of \<open>POST /api/chat\<close>. It returns the calls made to the two services and
  either the exception that ended the request or the response.
\<close>

definition chat :: "py \<Rightarrow> world \<Rightarrow> request \<Rightarrow> event list \<times> (error + chat_response)" where
  "chat p w req =
     (let (fetched, weather_result) = get_weather p w (latitude req) (longitude req)
      in case weather_result of
           Inl e \<Rightarrow> (fetched, Inl e)
         | Inr weather \<Rightarrow>
             (let prices = get_mandi_prices
              in case build_context p weather prices of
                   Inl e \<Rightarrow> (fetched, Inl e)
                 | Inr context \<Rightarrow>
                     (let messages =
                            [\<lparr>role = ''system'', content = Text SYSTEM_PROMPT\<rparr>,
                             \<lparr>role = ''user'', content = Text
                                (''Context:\<newline>'' @ context @ ''\<newline>\<newline>Farmer Query ('' @
                                 language req @ ''): '' @ message req)\<rparr>];
                          (messages, model) =
                            (case image req of
                               Some img \<Rightarrow>
                                 (let img_bytes = file_bytes img;
                                      img_b64 = b64encode img_bytes
                                  in (messages[1 := (messages ! 1)\<lparr>content := Parts
                                        [TextPart
                                           (''Context:\<newline>'' @ context @
                                            ''\<newline>\<newline>Analyze this crop image and provide advice ('' @
                                            language req @ ''): '' @ message req),
                                         ImageUrlPart (''data:image/jpeg;base64,'' @ img_b64)]\<rparr>],
                                      ''llama-3.2-90b-vision-preview''))
                             | None \<Rightarrow> (messages, ''llama-3.3-70b-versatile''));
                          call = \<lparr>call_model = model, call_messages = messages,
                                  call_temperature = 0.3, call_max_tokens = 2000,
                                  call_stream = None, call_n = None\<rparr>
                      in (fetched @ [ChatCompletion call],
                          case groq_create w call of
                            Inl e \<Rightarrow> Inl e
                          | Inr response \<Rightarrow>
                              (case choices response of
                                 [] \<Rightarrow> Inl IndexError
                               | first_choice # _ \<Rightarrow>
                                   (case usage response of
                                      None \<Rightarrow> Inl AttributeError
                                    | Some u \<Rightarrow>
                                        Inr \<lparr>r_response = message_content first_choice,
                                             r_weather = weather,
                                             r_prices = prices,
                                             r_model = model,
                                             r_latency_ms = total_tokens u\<rparr>))))))"

text \<open>The handlers of \<open>GET /api/prices\<close> and \<open>GET /api/weather\<close>.\<close>

definition prices :: json where
  "prices = get_mandi_prices"

definition weather :: "py \<Rightarrow> world \<Rightarrow> pyfloat \<Rightarrow> pyfloat \<Rightarrow> event list \<times> (error + json)" where
  "weather p w lat lon = get_weather p w lat lon"

text \<open>The calls to the completion provider among the calls of a request.\<close>

fun provider_calls :: "event list \<Rightarrow> completion_call list" where
  "provider_calls [] = []"
| "provider_calls (HttpGet url # es) = provider_calls es"
| "provider_calls (ChatCompletion c # es) = c # provider_calls es"

text \<open>
  The text a call puts before the provider in its user message: the content itself, or
  the text part that leads a list of parts.
\<close>

fun content_text :: "content \<Rightarrow> string" where
  "content_text (Text t) = t"
| "content_text (Parts (TextPart t # ps)) = t"
| "content_text (Parts ps) = []"

definition prompt_text :: "completion_call \<Rightarrow> string" where
  "prompt_text c = (case call_messages c of [system_msg, user_msg] \<Rightarrow> content_text (content user_msg) | _ \<Rightarrow> [])"

section \<open>Sample inputs\<close>

text \<open>
  A runtime that agrees with Python on the floats and strings of the samples below: the
  two default coordinates, and strings without quotes or escapes.
\<close>

definition sample_py :: py where
  "sample_py =
     \<lparr>float_repr = (\<lambda>f. if f = 0x403F8538EF34D6A1 then ''31.5204''
                         else if f = 0x405296F4F0D844D0 then ''74.3587'' else ''0.0''),
      str_repr = (\<lambda>s. [CHR 0x27] @ s @ [CHR 0x27])\<rparr>"

definition sample_completion :: completion where
  "sample_completion =
     \<lparr>choices = [\<lparr>message_content = Some ''## I. Immediate Action''\<rparr>],
      usage = Some \<lparr>total_tokens = 812\<rparr>\<rparr>"

definition sample_weather :: json where
  "sample_weather = JObj
     [(''timezone'', JStr ''Asia/Karachi''),
      (''current'', JObj [(''temperature_2m'', JInt 31), (''relative_humidity_2m'', JInt 40),
                         (''precipitation'', JInt 0)])]"

text \<open>The weather provider answers, fails with status 500, or cannot be reached.\<close>

definition world_ok :: world where
  "world_ok = \<lparr>http_get = (\<lambda>url. Response 200 (Some sample_weather)),
               groq_create = (\<lambda>c. Inr sample_completion)\<rparr>"

definition world_weather_500 :: world where
  "world_weather_500 = \<lparr>http_get = (\<lambda>url. Response 500 None),
                        groq_create = (\<lambda>c. Inr sample_completion)\<rparr>"


definition text_request :: request where
  "text_request = \<lparr>message = ''gandum ka ilaj'', language = ''ur'', image = None,
                   latitude = 0x403F8538EF34D6A1, longitude = 0x405296F4F0D844D0\<rparr>"

definition png_upload :: upload where
  "png_upload = \<lparr>filename = ''leaf.png'', content_type = ''image/png'',
                 file_bytes = [0x89, 0x50, 0x4E, 0x47]\<rparr>"

definition empty_upload :: upload where
  "empty_upload = \<lparr>filename = ''leaf.jpg'', content_type = ''image/jpeg'', file_bytes = []\<rparr>"

definition image_request :: "upload \<Rightarrow> request" where
  "image_request img = text_request\<lparr>image := Some img\<rparr>"

definition world_no_provider :: world where
  "world_no_provider = \<lparr>http_get = (\<lambda>url. Response 404 None),
                        groq_create = (\<lambda>c. Inl (CompletionError ''rate limit''))\<rparr>"

text \<open>The context when there is no weather, and the calls the samples lead to.\<close>

definition null_context :: string where
  "null_context =
     ''\<newline>Current Weather: N/A\<newline>Mandi Prices (PKR): Wheat: 4200/40kg, \<newline>Cotton: 8500, Rice: 5800\<newline>''"

definition sample_text_call :: completion_call where
  "sample_text_call =
     \<lparr>call_model = ''llama-3.3-70b-versatile'',
      call_messages =
        [\<lparr>role = ''system'', content = Text SYSTEM_PROMPT\<rparr>,
         \<lparr>role = ''user'', content = Text
            (''Context:\<newline>'' @ null_context @
             ''\<newline>\<newline>Farmer Query (ur): gandum ka ilaj'')\<rparr>],
      call_temperature = 0.3, call_max_tokens = 2000, call_stream = None, call_n = None\<rparr>"

definition sample_vision_call :: "string \<Rightarrow> completion_call" where
  "sample_vision_call b64 =
     \<lparr>call_model = ''llama-3.2-90b-vision-preview'',
      call_messages =
        [\<lparr>role = ''system'', content = Text SYSTEM_PROMPT\<rparr>,
         \<lparr>role = ''user'', content = Parts
            [TextPart (''Context:\<newline>'' @ null_context @
               ''\<newline>\<newline>Analyze this crop image and provide advice (ur): gandum ka ilaj''),
             ImageUrlPart (''data:image/jpeg;base64,'' @ b64)]\<rparr>],
      call_temperature = 0.3, call_max_tokens = 2000, call_stream = None, call_n = None\<rparr>"

definition sample_url :: string where
  "sample_url =
     ''https://api.open-meteo.com/v1/forecast?latitude=31.5204&longitude=74.3587&current=temperature_2m,relative_humidity_2m,precipitation&daily=precipitation_sum&timezone=Asia/Karachi''"

definition sample_response :: "json \<Rightarrow> string \<Rightarrow> chat_response" where
  "sample_response wth model =
     \<lparr>r_response = Some ''## I. Immediate Action'', r_weather = wth,
      r_prices = get_mandi_prices, r_model = model, r_latency_ms = 812\<rparr>"

text \<open>The table without sugarcane and maize, and the text of the sample weather.\<close>

definition three_prices :: json where
  "three_prices = JObj
     [(''wheat'', JObj [(''price'', JInt 4200), (''unit'', JStr ''40kg''), (''trend'', JStr ''up'')]),
      (''cotton'', JObj [(''price'', JInt 8500), (''unit'', JStr ''40kg''), (''trend'', JStr ''stable'')]),
      (''rice'', JObj [(''price'', JInt 5800), (''unit'', JStr ''40kg''), (''trend'', JStr ''up'')])]"

definition sample_current :: json where
  "sample_current = JObj [(''temperature_2m'', JInt 31), (''relative_humidity_2m'', JInt 40),
                          (''precipitation'', JInt 0)]"

definition sample_current_text :: string where
  "sample_current_text =
     ''{'' @ [CHR 0x27] @ ''temperature_2m'' @ [CHR 0x27] @ '': 31, '' @
     [CHR 0x27] @ ''relative_humidity_2m'' @ [CHR 0x27] @ '': 40, '' @
     [CHR 0x27] @ ''precipitation'' @ [CHR 0x27] @ '': 0}''"

text \<open>The context and the call of the text request when the sample weather is fetched.\<close>

definition sample_context :: string where
  "sample_context =
     ''\<newline>Current Weather: '' @ sample_current_text @
     ''\<newline>Mandi Prices (PKR): Wheat: 4200/40kg, \<newline>Cotton: 8500, Rice: 5800\<newline>''"

definition sample_ok_call :: completion_call where
  "sample_ok_call =
     \<lparr>call_model = ''llama-3.3-70b-versatile'',
      call_messages =
        [\<lparr>role = ''system'', content = Text SYSTEM_PROMPT\<rparr>,
         \<lparr>role = ''user'', content = Text
            (''Context:\<newline>'' @ sample_context @
             ''\<newline>\<newline>Farmer Query (ur): gandum ka ilaj'')\<rparr>],
      call_temperature = 0.3, call_max_tokens = 2000, call_stream = None, call_n = None\<rparr>"

section \<open>The calls and the result of a request\<close>

lemma fst_get_weather: "fst (get_weather p w lat lon) = [HttpGet (weather_url p lat lon)]"
  by (simp add: get_weather_def Let_def)


lemma get_weather_transport:
  assumes "http_get w (weather_url p lat lon) = TransportFailure"
  shows "snd (get_weather p w lat lon) = Inl TransportError"
  using assms by (simp add: get_weather_def Let_def)

text \<open>A request that does not get its weather or its context calls no provider.\<close>

lemma chat_weather_error:
  assumes "snd (get_weather p w (latitude req) (longitude req)) = Inl e"
  shows "chat p w req = ([HttpGet (weather_url p (latitude req) (longitude req))], Inl e)"
proof -
  have "get_weather p w (latitude req) (longitude req) =
          ([HttpGet (weather_url p (latitude req) (longitude req))], Inl e)"
    using assms fst_get_weather [of p w "latitude req" "longitude req"]
    by (cases "get_weather p w (latitude req) (longitude req)") simp
  then show ?thesis by (simp add: chat_def)
qed

lemma chat_context_error:
  assumes "snd (get_weather p w (latitude req) (longitude req)) = Inr wth"
    and "build_context p wth get_mandi_prices = Inl e"
  shows "chat p w req = ([HttpGet (weather_url p (latitude req) (longitude req))], Inl e)"
proof -
  have "get_weather p w (latitude req) (longitude req) =
          ([HttpGet (weather_url p (latitude req) (longitude req))], Inr wth)"
    using assms(1) fst_get_weather [of p w "latitude req" "longitude req"]
    by (cases "get_weather p w (latitude req) (longitude req)") simp
  then show ?thesis using assms(2) by (simp add: chat_def)
qed

text \<open>
  Every call to the completion provider is the only one of its request, and is made of
  the fetched weather, the context and the request as follows.
\<close>

lemma chat_call:
  assumes "c \<in> set (provider_calls (fst (chat p w req)))"
  shows "\<exists>wth context.
           snd (get_weather p w (latitude req) (longitude req)) = Inr wth \<and>
           build_context p wth get_mandi_prices = Inr context \<and>
           provider_calls (fst (chat p w req)) = [c] \<and>
           c = \<lparr>call_model =
                   (case image req of None \<Rightarrow> ''llama-3.3-70b-versatile''
                    | Some img \<Rightarrow> ''llama-3.2-90b-vision-preview''),
                 call_messages =
                   [\<lparr>role = ''system'', content = Text SYSTEM_PROMPT\<rparr>,
                    \<lparr>role = ''user'', content =
                       (case image req of
                          None \<Rightarrow> Text (''Context:\<newline>'' @ context @
                                    ''\<newline>\<newline>Farmer Query ('' @ language req @ ''): '' @
                                    message req)
                        | Some img \<Rightarrow> Parts
                            [TextPart (''Context:\<newline>'' @ context @
                               ''\<newline>\<newline>Analyze this crop image and provide advice ('' @
                               language req @ ''): '' @ message req),
                             ImageUrlPart (''data:image/jpeg;base64,'' @
                               b64encode (file_bytes img))])\<rparr>],
                 call_temperature = 0.3, call_max_tokens = 2000,
                 call_stream = None, call_n = None\<rparr>"
proof (cases "snd (get_weather p w (latitude req) (longitude req))")
  case (Inl e)
  then show ?thesis using assms by (simp add: chat_weather_error)
next
  case (Inr wth)
  note fetched = this
  show ?thesis
  proof (cases "build_context p wth get_mandi_prices")
    case (Inl e)
    then show ?thesis using assms fetched by (simp add: chat_context_error)
  next
    case (Inr ctx)
    have gw: "get_weather p w (latitude req) (longitude req) =
          ([HttpGet (weather_url p (latitude req) (longitude req))], Inr wth)"
      using fetched fst_get_weather [of p w "latitude req" "longitude req"]
      by (cases "get_weather p w (latitude req) (longitude req)") simp
    show ?thesis
    proof (cases "image req")
      case None
      then show ?thesis using assms fetched Inr gw
        by (simp add: chat_def Let_def)
    next
      case (Some img)
      then show ?thesis using assms fetched Inr gw
        by (simp add: chat_def Let_def)
    qed
  qed
qed

text \<open>A request that succeeds made one call, and its response is read off the answer.\<close>

lemma chat_result:
  assumes "snd (chat p w req) = Inr r"
  shows "\<exists>c response ch chs u wth.
           provider_calls (fst (chat p w req)) = [c] \<and>
           groq_create w c = Inr response \<and>
           choices response = ch # chs \<and>
           usage response = Some u \<and>
           snd (get_weather p w (latitude req) (longitude req)) = Inr wth \<and>
           r = \<lparr>r_response = message_content ch, r_weather = wth,
                 r_prices = get_mandi_prices, r_model = call_model c,
                 r_latency_ms = total_tokens u\<rparr>"
proof (cases "snd (get_weather p w (latitude req) (longitude req))")
  case (Inl e)
  then show ?thesis using assms by (simp add: chat_weather_error)
next
  case (Inr wth)
  note fetched = this
  show ?thesis
  proof (cases "build_context p wth get_mandi_prices")
    case (Inl e)
    then show ?thesis using assms fetched by (simp add: chat_context_error)
  next
    case (Inr ctx)
    have gw: "get_weather p w (latitude req) (longitude req) =
          ([HttpGet (weather_url p (latitude req) (longitude req))], Inr wth)"
      using fetched fst_get_weather [of p w "latitude req" "longitude req"]
      by (cases "get_weather p w (latitude req) (longitude req)") simp
    show ?thesis using assms Inr gw
      by (cases "image req")
         (auto simp: chat_def Let_def split: sum.splits list.splits option.splits)
  qed
qed

section \<open>Library functions on concrete values\<close>

lemma str_int_samples:
  "str_int 4200 = ''4200''" "str_int 8500 = ''8500''" "str_int 5800 = ''5800''"
  by (simp_all add: str_int_def digit_char_def
      digits.simps [of 4200] digits.simps [of 420] digits.simps [of 42] digits.simps [of 4]
      digits.simps [of 8500] digits.simps [of 850] digits.simps [of 85] digits.simps [of 8]
      digits.simps [of 5800] digits.simps [of 580] digits.simps [of 58] digits.simps [of 5])

lemma b64encode_rfc4648:
  "b64encode [] = ''''"
  "b64encode [0x66] = ''Zg==''"
  "b64encode [0x66, 0x6F] = ''Zm8=''"
  "b64encode [0x66, 0x6F, 0x6F] = ''Zm9v''"
  "b64encode [0x66, 0x6F, 0x6F, 0x62] = ''Zm9vYg==''"
  "b64encode [0x66, 0x6F, 0x6F, 0x62, 0x61] = ''Zm9vYmE=''"
  "b64encode [0x66, 0x6F, 0x6F, 0x62, 0x61, 0x72] = ''Zm9vYmFy''"
  by (simp_all add: b64_char_def b64_alphabet_def Let_def)

lemma b64encode_png: "b64encode (file_bytes png_upload) = ''iVBORw==''"
  by (simp add: png_upload_def b64_char_def b64_alphabet_def Let_def)

lemma length_b64encode: "length (b64encode bs) = 4 * ((length bs + 2) div 3)"
proof (induction bs rule: b64encode.induct)
  case (4 a b c rest)
  have "(5 + length rest) div 3 = Suc ((Suc (Suc (length rest))) div 3)" by presburger
  with 4 show ?case by (simp add: Let_def)
qed (simp_all add: Let_def)

section \<open>The context\<close>

lemma and_then_Inr: "and_then (Inr x) f = f x"
  by (simp add: and_then_def)

lemma price_lookups:
  "and_then (getitem get_mandi_prices ''wheat'') (\<lambda>e. getitem e ''price'') = Inr (JInt 4200)"
  "and_then (getitem get_mandi_prices ''wheat'') (\<lambda>e. getitem e ''unit'') = Inr (JStr ''40kg'')"
  "and_then (getitem get_mandi_prices ''cotton'') (\<lambda>e. getitem e ''price'') = Inr (JInt 8500)"
  "and_then (getitem get_mandi_prices ''rice'') (\<lambda>e. getitem e ''price'') = Inr (JInt 5800)"
  by (simp_all add: get_mandi_prices_def and_then_def)

text \<open>With the table of the program, only the weather field of the context can raise.\<close>

lemma context_prices:
  "build_context p wth get_mandi_prices =
     and_then (if truthy wth then getitem wth ''current'' else Inr (JStr ''N/A'')) (\<lambda>cur.
       Inr (''\<newline>Current Weather: '' @ py_str p cur @
            ''\<newline>Mandi Prices (PKR): Wheat: 4200/40kg, \<newline>Cotton: 8500, Rice: 5800\<newline>''))"
  unfolding build_context_def price_lookups and_then_Inr
  by (simp add: str_int_samples)

lemma context_null: "build_context p JNull get_mandi_prices = Inr null_context"
  by (simp add: build_context_def get_mandi_prices_def and_then_def null_context_def
      str_int_samples)

section \<open>The samples, evaluated\<close>

lemma sample_url: "weather_url sample_py (latitude text_request) (longitude text_request) = sample_url"
  by (simp add: weather_url_def sample_py_def text_request_def sample_url_def)

lemma sample_url_image:
  "weather_url sample_py (latitude (image_request img)) (longitude (image_request img)) = sample_url"
  by (simp add: weather_url_def sample_py_def text_request_def sample_url_def image_request_def)

lemma sample_text_run:
  "chat sample_py world_weather_500 text_request =
     ([HttpGet sample_url, ChatCompletion sample_text_call],
      Inr (sample_response JNull ''llama-3.3-70b-versatile''))"
proof -
  have "get_weather sample_py world_weather_500 (latitude text_request) (longitude text_request)
          = ([HttpGet sample_url], Inr JNull)"
    by (simp add: get_weather_def Let_def sample_url world_weather_500_def)
  then show ?thesis
    by (simp add: chat_def Let_def context_null sample_text_call_def sample_response_def
        world_weather_500_def sample_completion_def text_request_def)
qed

lemma sample_vision_run:
  "chat sample_py world_weather_500 (image_request img) =
     ([HttpGet sample_url, ChatCompletion (sample_vision_call (b64encode (file_bytes img)))],
      Inr (sample_response JNull ''llama-3.2-90b-vision-preview''))"
proof -
  have "get_weather sample_py world_weather_500
          (latitude (image_request img)) (longitude (image_request img))
          = ([HttpGet sample_url], Inr JNull)"
    by (simp add: get_weather_def Let_def sample_url_image world_weather_500_def)
  then show ?thesis
    by (simp add: chat_def Let_def context_null sample_vision_call_def sample_response_def
        world_weather_500_def sample_completion_def text_request_def image_request_def)
qed


lemma sample_no_provider_run:
  "chat sample_py world_no_provider (image_request img) =
     ([HttpGet sample_url, ChatCompletion (sample_vision_call (b64encode (file_bytes img)))],
      Inl (CompletionError ''rate limit''))"
proof -
  have "get_weather sample_py world_no_provider
          (latitude (image_request img)) (longitude (image_request img))
          = ([HttpGet sample_url], Inr JNull)"
    by (simp add: get_weather_def Let_def sample_url_image world_no_provider_def)
  then show ?thesis
    by (simp add: chat_def Let_def context_null sample_vision_call_def
        world_no_provider_def image_request_def text_request_def)
qed

lemma sample_images:
  "image text_request = None" "image (image_request img) = Some img"
  "file_bytes empty_upload = []" "content_type png_upload = ''image/png''"
  by (simp_all add: text_request_def image_request_def empty_upload_def png_upload_def)

lemma sample_current_text:
  "truthy sample_weather" "getitem sample_weather ''current'' = Inr sample_current"
  "py_str sample_py sample_current = sample_current_text"
  by (simp_all add: sample_weather_def sample_current_def sample_current_text_def
      sample_py_def str_int_def digit_char_def digits.simps [of 31] digits.simps [of 3]
      digits.simps [of 40] digits.simps [of 4] digits.simps [of 0])

lemma sample_context: "build_context sample_py sample_weather get_mandi_prices = Inr sample_context"
  by (simp add: context_prices sample_current_text and_then_Inr sample_context_def)

lemma sample_ok_run:
  "chat sample_py world_ok text_request =
     ([HttpGet sample_url, ChatCompletion sample_ok_call],
      Inr (sample_response sample_weather ''llama-3.3-70b-versatile''))"
proof -
  have "get_weather sample_py world_ok (latitude text_request) (longitude text_request)
          = ([HttpGet sample_url], Inr sample_weather)"
    by (simp add: get_weather_def Let_def sample_url world_ok_def)
  then show ?thesis
    by (simp add: chat_def Let_def sample_context sample_ok_call_def sample_response_def
        world_ok_def sample_completion_def text_request_def)
qed

text \<open>A transport failure of the weather call ends the request, before any completion call.\<close>

lemma weather_transport_failure_fatal:
  assumes "http_get w (weather_url p (latitude req) (longitude req)) = TransportFailure"
  shows "chat p w req = ([HttpGet (weather_url p (latitude req) (longitude req))], Inl TransportError)"
  using assms by (simp add: chat_weather_error get_weather_transport)

section \<open>Modality\<close>

text \<open>
  C1, as the code has it: the model of every completion call is the text model when the
  request has no image and the vision model when it has one, whatever the image holds;
  the number of bytes of the image is never looked at.
\<close>

theorem modality_by_presence:
  assumes "c \<in> set (provider_calls (fst (chat p w req)))"
  shows "call_model c =
           (if image req = None then ''llama-3.3-70b-versatile''
            else ''llama-3.2-90b-vision-preview'')"
proof -
  from chat_call [OF assms] obtain wth ctx where
    "call_model c =
       (case image req of None \<Rightarrow> ''llama-3.3-70b-versatile''
        | Some img \<Rightarrow> ''llama-3.2-90b-vision-preview'')"
    by auto
  then show ?thesis by (cases "image req") simp_all
qed

theorem modality_by_presence_witness:
  "sample_text_call \<in> set (provider_calls (fst (chat sample_py world_weather_500 text_request)))
   \<and> call_model sample_text_call = ''llama-3.3-70b-versatile''
   \<and> sample_vision_call ''iVBORw=='' \<in>
       set (provider_calls (fst (chat sample_py world_weather_500 (image_request png_upload))))
   \<and> call_model (sample_vision_call ''iVBORw=='') = ''llama-3.2-90b-vision-preview''"
  using modality_by_presence [of sample_text_call sample_py world_weather_500 text_request]
    modality_by_presence [of "sample_vision_call ''iVBORw==''" sample_py world_weather_500
      "image_request png_upload"]
  by (simp add: sample_text_run sample_vision_run b64encode_png sample_images
      sample_text_call_def sample_vision_call_def)

text \<open>
  C1 as stated fails: a request whose image is attached with zero bytes is sent to the
  vision model.
\<close>

theorem empty_image_selects_vision:
  "image (image_request empty_upload) = Some empty_upload
   \<and> file_bytes empty_upload = []
   \<and> map call_model
         (provider_calls (fst (chat sample_py world_weather_500 (image_request empty_upload))))
       = [''llama-3.2-90b-vision-preview'']
   \<and> map_sum id r_model (snd (chat sample_py world_weather_500 (image_request empty_upload)))
       = Inr ''llama-3.2-90b-vision-preview''
   \<and> ''llama-3.2-90b-vision-preview'' \<noteq> ''llama-3.3-70b-versatile''"
  by (simp add: sample_vision_run sample_vision_call_def sample_response_def sample_images)

section \<open>Weather failures\<close>




section \<open>The messages\<close>

text \<open>
  C3: every completion call carries exactly two messages, and the first is the system
  message whose content is \<open>SYSTEM_PROMPT\<close>, whatever the request.
\<close>

theorem system_message_first:
  assumes "c \<in> set (provider_calls (fst (chat p w req)))"
  shows "length (call_messages c) = 2 \<and>
         call_messages c ! 0 = \<lparr>role = ''system'', content = Text SYSTEM_PROMPT\<rparr> \<and>
         role (call_messages c ! 1) = ''user''"
  using chat_call [OF assms] by auto

theorem system_message_first_witness:
  "sample_vision_call ''iVBORw=='' \<in>
     set (provider_calls (fst (chat sample_py world_no_provider (image_request png_upload))))
   \<and> length (call_messages (sample_vision_call ''iVBORw=='')) = 2
   \<and> call_messages (sample_vision_call ''iVBORw=='') ! 0 =
       \<lparr>role = ''system'', content = Text SYSTEM_PROMPT\<rparr>"
  using system_message_first [of "sample_vision_call ''iVBORw==''" sample_py world_no_provider
      "image_request png_upload"]
  by (simp add: sample_no_provider_run b64encode_png)

text \<open>
  C4: in a call to the vision model the user message is a list of two parts, a text part
  and then an image part whose URL is \<open>data:image/jpeg;base64,\<close> followed by the base64
  encoding of the bytes of the image; the declared media type of the image plays no part.
\<close>

theorem vision_message_parts:
  assumes "c \<in> set (provider_calls (fst (chat p w req)))"
    and "call_model c = ''llama-3.2-90b-vision-preview''"
  shows "\<exists>img txt. image req = Some img \<and>
           call_messages c ! 1 =
             \<lparr>role = ''user'', content = Parts
                [TextPart txt,
                 ImageUrlPart (''data:image/jpeg;base64,'' @ b64encode (file_bytes img))]\<rparr>"
proof (cases "image req")
  case None
  with chat_call [OF assms(1)] assms(2) show ?thesis by auto
next
  case (Some img)
  with chat_call [OF assms(1)] show ?thesis by auto
qed

theorem vision_message_parts_witness:
  "sample_vision_call ''iVBORw=='' \<in>
     set (provider_calls (fst (chat sample_py world_weather_500 (image_request png_upload))))
   \<and> call_model (sample_vision_call ''iVBORw=='') = ''llama-3.2-90b-vision-preview''
   \<and> content_type png_upload = ''image/png''
   \<and> image (image_request png_upload) = Some png_upload
   \<and> (\<exists>txt. call_messages (sample_vision_call ''iVBORw=='') ! 1 =
         \<lparr>role = ''user'', content = Parts
            [TextPart txt, ImageUrlPart ''data:image/jpeg;base64,iVBORw=='']\<rparr>)"
  using vision_message_parts [of "sample_vision_call ''iVBORw==''" sample_py world_weather_500
      "image_request png_upload"]
  by (simp add: sample_vision_run b64encode_png sample_images sample_vision_call_def)

text \<open>
  C6: in a call to the text model the user message is the single text
  \<open>Context:\n<context>\n\nFarmer Query (<language>): <message>\<close>, the context being
  the one built from the fetched weather and the price table.
\<close>

theorem text_message_template:
  assumes "c \<in> set (provider_calls (fst (chat p w req)))"
    and "call_model c = ''llama-3.3-70b-versatile''"
  shows "\<exists>wth context.
           snd (get_weather p w (latitude req) (longitude req)) = Inr wth \<and>
           build_context p wth get_mandi_prices = Inr context \<and>
           call_messages c ! 1 =
             \<lparr>role = ''user'', content = Text
                (''Context:\<newline>'' @ context @ ''\<newline>\<newline>Farmer Query ('' @
                 language req @ ''): '' @ message req)\<rparr>"
proof (cases "image req")
  case None
  with chat_call [OF assms(1)] show ?thesis by auto
next
  case (Some img)
  with chat_call [OF assms(1)] assms(2) show ?thesis by auto
qed

theorem text_message_template_witness:
  "sample_ok_call \<in> set (provider_calls (fst (chat sample_py world_ok text_request)))
   \<and> call_model sample_ok_call = ''llama-3.3-70b-versatile''
   \<and> build_context sample_py sample_weather get_mandi_prices = Inr sample_context
   \<and> call_messages sample_ok_call ! 1 =
       \<lparr>role = ''user'', content = Text
          (''Context:\<newline>'' @ sample_context @ ''\<newline>\<newline>Farmer Query ('' @
           language text_request @ ''): '' @ message text_request)\<rparr>"
proof -
  have made: "sample_ok_call \<in> set (provider_calls (fst (chat sample_py world_ok text_request)))"
    by (simp add: sample_ok_run)
  have model: "call_model sample_ok_call = ''llama-3.3-70b-versatile''"
    by (simp add: sample_ok_call_def)
  from text_message_template [OF made model] made model show ?thesis
    by (simp add: sample_context sample_ok_call_def text_request_def)
qed

section \<open>The completion call and the response\<close>

text \<open>
  C7: a request makes at most one call to the completion provider, and every such call
  has temperature 0.3 and at most 2000 output tokens, passes neither \<open>stream\<close> nor
  \<open>n\<close> (one completion, not streamed), and carries the selected model and the two
  messages.
\<close>

theorem completion_parameters:
  assumes "c \<in> set (provider_calls (fst (chat p w req)))"
  shows "call_temperature c = 0.3 \<and> call_max_tokens c = 2000 \<and>
         call_stream c = None \<and> call_n c = None \<and>
         call_model c =
           (if image req = None then ''llama-3.3-70b-versatile''
            else ''llama-3.2-90b-vision-preview'') \<and>
         length (call_messages c) = 2 \<and>
         provider_calls (fst (chat p w req)) = [c]"
proof -
  from chat_call [OF assms] obtain wth ctx where
    only: "provider_calls (fst (chat p w req)) = [c]" and
    c: "c = \<lparr>call_model =
                 (case image req of None \<Rightarrow> ''llama-3.3-70b-versatile''
                  | Some img \<Rightarrow> ''llama-3.2-90b-vision-preview''),
               call_messages =
                 [\<lparr>role = ''system'', content = Text SYSTEM_PROMPT\<rparr>,
                  \<lparr>role = ''user'', content =
                     (case image req of
                        None \<Rightarrow> Text (''Context:\<newline>'' @ ctx @
                                  ''\<newline>\<newline>Farmer Query ('' @ language req @ ''): '' @
                                  message req)
                      | Some img \<Rightarrow> Parts
                          [TextPart (''Context:\<newline>'' @ ctx @
                             ''\<newline>\<newline>Analyze this crop image and provide advice ('' @
                             language req @ ''): '' @ message req),
                           ImageUrlPart (''data:image/jpeg;base64,'' @
                             b64encode (file_bytes img))])\<rparr>],
               call_temperature = 0.3, call_max_tokens = 2000,
               call_stream = None, call_n = None\<rparr>"
    by blast
  have "call_temperature c = 0.3" "call_max_tokens c = 2000"
    "call_stream c = None" "call_n c = None" "length (call_messages c) = 2"
    by (subst c, simp)+
  moreover have "call_model c =
      (if image req = None then ''llama-3.3-70b-versatile''
       else ''llama-3.2-90b-vision-preview'')"
    by (subst c, cases "image req") simp_all
  ultimately show ?thesis using only by simp
qed

theorem completion_parameters_witness:
  "sample_vision_call ''iVBORw=='' \<in>
     set (provider_calls (fst (chat sample_py world_no_provider (image_request png_upload))))
   \<and> call_temperature (sample_vision_call ''iVBORw=='') = 0.3
   \<and> call_max_tokens (sample_vision_call ''iVBORw=='') = 2000
   \<and> call_stream (sample_vision_call ''iVBORw=='') = None
   \<and> call_n (sample_vision_call ''iVBORw=='') = None
   \<and> provider_calls (fst (chat sample_py world_no_provider (image_request png_upload))) =
       [sample_vision_call ''iVBORw=='']"
proof -
  have made: "sample_vision_call ''iVBORw=='' \<in>
      set (provider_calls (fst (chat sample_py world_no_provider (image_request png_upload))))"
    by (simp add: sample_no_provider_run b64encode_png)
  from completion_parameters [OF made] made show ?thesis by simp
qed

text \<open>
  C5: the \<open>latency_ms\<close> of a response is the \<open>total_tokens\<close> the completion provider
  reported for the one call of the request.
\<close>

theorem latency_is_token_count:
  assumes "snd (chat p w req) = Inr r"
  shows "\<exists>c response u.
           provider_calls (fst (chat p w req)) = [c] \<and>
           groq_create w c = Inr response \<and>
           usage response = Some u \<and>
           r_latency_ms r = total_tokens u"
proof -
  from chat_result [OF assms] obtain c response ch chs u wth where
    "provider_calls (fst (chat p w req)) = [c]" "groq_create w c = Inr response"
    "choices response = ch # chs" "usage response = Some u"
    "r = \<lparr>r_response = message_content ch, r_weather = wth,
           r_prices = get_mandi_prices, r_model = call_model c,
           r_latency_ms = total_tokens u\<rparr>"
    by blast
  then show ?thesis by auto
qed

theorem latency_is_token_count_witness:
  "snd (chat sample_py world_weather_500 text_request) =
     Inr (sample_response JNull ''llama-3.3-70b-versatile'')
   \<and> provider_calls (fst (chat sample_py world_weather_500 text_request)) = [sample_text_call]
   \<and> groq_create world_weather_500 sample_text_call = Inr sample_completion
   \<and> usage sample_completion = Some \<lparr>total_tokens = 812\<rparr>
   \<and> r_latency_ms (sample_response JNull ''llama-3.3-70b-versatile'') = 812"
proof -
  have succeeded: "snd (chat sample_py world_weather_500 text_request) =
      Inr (sample_response JNull ''llama-3.3-70b-versatile'')"
    by (simp add: sample_text_run)
  have answer: "groq_create world_weather_500 sample_text_call = Inr sample_completion"
    by (simp add: world_weather_500_def)
  have tokens: "usage sample_completion = Some \<lparr>total_tokens = 812\<rparr>"
    by (simp add: sample_completion_def)
  have "r_latency_ms (sample_response JNull ''llama-3.3-70b-versatile'') = 812"
    by (simp add: sample_response_def)
  with latency_is_token_count [OF succeeded] succeeded answer tokens show ?thesis
    by (simp add: sample_text_run)
qed

section \<open>The price table\<close>

text \<open>
  C8: the price table always has the five commodities wheat, cotton, rice, sugarcane and
  maize, each with a price, a unit and a trend, wheat being 4200 per 40kg and up; the
  prices endpoint returns this table, and so does every response of the chat endpoint.
\<close>

theorem price_table_fixed:
  assumes "snd (chat p w req) = Inr r"
  shows "r_prices r = prices \<and> prices = get_mandi_prices \<and>
         (\<exists>kvs. get_mandi_prices = JObj kvs \<and>
            map fst kvs = [''wheat'', ''cotton'', ''rice'', ''sugarcane'', ''maize''] \<and>
            list_all (\<lambda>e. \<exists>pr un tr.
                e = JObj [(''price'', JInt pr), (''unit'', JStr un), (''trend'', JStr tr)])
              (map snd kvs)) \<and>
         getitem get_mandi_prices ''wheat'' =
           Inr (JObj [(''price'', JInt 4200), (''unit'', JStr ''40kg''), (''trend'', JStr ''up'')])"
proof -
  from chat_result [OF assms] have "r_prices r = get_mandi_prices" by auto
  moreover have "getitem get_mandi_prices ''wheat'' =
      Inr (JObj [(''price'', JInt 4200), (''unit'', JStr ''40kg''), (''trend'', JStr ''up'')])"
    by (simp add: get_mandi_prices_def)
  moreover have "\<exists>kvs. get_mandi_prices = JObj kvs \<and>
      map fst kvs = [''wheat'', ''cotton'', ''rice'', ''sugarcane'', ''maize''] \<and>
      list_all (\<lambda>e. \<exists>pr un tr.
          e = JObj [(''price'', JInt pr), (''unit'', JStr un), (''trend'', JStr tr)])
        (map snd kvs)"
    unfolding get_mandi_prices_def by (rule exI, rule conjI, rule refl) simp
  ultimately show ?thesis by (simp add: prices_def)
qed

theorem price_table_fixed_witness:
  "snd (chat sample_py world_ok text_request) =
     Inr (sample_response sample_weather ''llama-3.3-70b-versatile'')
   \<and> r_prices (sample_response sample_weather ''llama-3.3-70b-versatile'') = prices
   \<and> getitem prices ''wheat'' =
       Inr (JObj [(''price'', JInt 4200), (''unit'', JStr ''40kg''), (''trend'', JStr ''up'')])"
proof -
  have succeeded: "snd (chat sample_py world_ok text_request) =
      Inr (sample_response sample_weather ''llama-3.3-70b-versatile'')"
    by (simp add: sample_ok_run)
  from price_table_fixed [OF succeeded] succeeded show ?thesis by simp
qed

section \<open>The context in the prompt\<close>

text \<open>
  C9: the context depends on nothing but the weather snapshot and the price table. Two
  calls to the completion provider, made for any two requests against any two states of
  the outside world, put the same context text before the provider as soon as the two
  requests fetched the same weather: no clock, random source, coordinate, language,
  query or image enters it.
\<close>

theorem context_deterministic:
  assumes "c1 \<in> set (provider_calls (fst (chat p w1 req1)))"
    and "c2 \<in> set (provider_calls (fst (chat p w2 req2)))"
    and "snd (get_weather p w1 (latitude req1) (longitude req1)) = Inr wth"
    and "snd (get_weather p w2 (latitude req2) (longitude req2)) = Inr wth"
  shows "\<exists>context rest1 rest2.
           build_context p wth get_mandi_prices = Inr context \<and>
           prompt_text c1 = ''Context:\<newline>'' @ context @ ''\<newline>\<newline>'' @ rest1 \<and>
           prompt_text c2 = ''Context:\<newline>'' @ context @ ''\<newline>\<newline>'' @ rest2"
proof -
  have one: "\<exists>rest. prompt_text c = ''Context:\<newline>'' @ ctx @ ''\<newline>\<newline>'' @ rest"
    if "c \<in> set (provider_calls (fst (chat p w req)))"
      and "snd (get_weather p w (latitude req) (longitude req)) = Inr wth"
      and "build_context p wth get_mandi_prices = Inr ctx"
    for c w req ctx
  proof (cases "image req")
    case None
    with chat_call [OF that(1)] that(2,3) show ?thesis
      by (auto simp: prompt_text_def)
  next
    case (Some img)
    with chat_call [OF that(1)] that(2,3) show ?thesis
      by (auto simp: prompt_text_def)
  qed
  from chat_call [OF assms(1)] assms(3) obtain ctx where
    ctx: "build_context p wth get_mandi_prices = Inr ctx"
    by auto
  from one [OF assms(1,3) ctx] one [OF assms(2,4) ctx] ctx show ?thesis
    by blast
qed

theorem context_deterministic_witness:
  "sample_text_call \<in> set (provider_calls (fst (chat sample_py world_weather_500 text_request)))
   \<and> sample_vision_call ''iVBORw=='' \<in>
       set (provider_calls (fst (chat sample_py world_no_provider (image_request png_upload))))
   \<and> snd (get_weather sample_py world_weather_500
            (latitude text_request) (longitude text_request)) = Inr JNull
   \<and> snd (get_weather sample_py world_no_provider
            (latitude (image_request png_upload)) (longitude (image_request png_upload)))
       = Inr JNull
   \<and> (\<exists>rest1 rest2.
         prompt_text sample_text_call =
           ''Context:\<newline>'' @ null_context @ ''\<newline>\<newline>'' @ rest1 \<and>
         prompt_text (sample_vision_call ''iVBORw=='') =
           ''Context:\<newline>'' @ null_context @ ''\<newline>\<newline>'' @ rest2)"
proof -
  have c1: "sample_text_call \<in>
      set (provider_calls (fst (chat sample_py world_weather_500 text_request)))"
    by (simp add: sample_text_run)
  have c2: "sample_vision_call ''iVBORw=='' \<in>
      set (provider_calls (fst (chat sample_py world_no_provider (image_request png_upload))))"
    by (simp add: sample_no_provider_run b64encode_png)
  have w1: "snd (get_weather sample_py world_weather_500
      (latitude text_request) (longitude text_request)) = Inr JNull"
    by (simp add: get_weather_def Let_def world_weather_500_def)
  have w2: "snd (get_weather sample_py world_no_provider
      (latitude (image_request png_upload)) (longitude (image_request png_upload))) = Inr JNull"
    by (simp add: get_weather_def Let_def world_no_provider_def)
  from context_deterministic [OF c1 c2 w1 w2] c1 c2 w1 w2 show ?thesis
    by (simp add: context_null)
qed

text \<open>
  C10: in every call to the completion provider the prompt opens with the context, which
  holds of the weather the text of its \<open>current\<close> entry alone, or \<open>N/A\<close> when the
  weather is null, and of the prices those of wheat (with its unit), cotton and rice
  only; sugarcane and maize are never read, so that any table with the same three
  entries gives the same context.
\<close>

theorem context_contents:
  "(c \<in> set (provider_calls (fst (chat p w req))) \<longrightarrow>
      (\<exists>fetched shown rest.
         snd (get_weather p w (latitude req) (longitude req)) = Inr fetched \<and>
         (if truthy fetched
          then \<exists>cur. getitem fetched ''current'' = Inr cur \<and> shown = py_str p cur
          else shown = ''N/A'') \<and>
         (fetched = JNull \<longrightarrow> shown = ''N/A'') \<and>
         prompt_text c =
           ''Context:\<newline>'' @
           ''\<newline>Current Weather: '' @ shown @
           ''\<newline>Mandi Prices (PKR): Wheat: 4200/40kg, \<newline>Cotton: 8500, Rice: 5800\<newline>'' @
           ''\<newline>\<newline>'' @ rest))
   \<and> build_context p JNull get_mandi_prices =
       Inr ''\<newline>Current Weather: N/A\<newline>Mandi Prices (PKR): Wheat: 4200/40kg, \<newline>Cotton: 8500, Rice: 5800\<newline>''
   \<and> (truthy wth \<and> getitem wth ''current'' = Inr cur \<longrightarrow>
        build_context p wth get_mandi_prices =
          Inr (''\<newline>Current Weather: '' @ py_str p cur @
               ''\<newline>Mandi Prices (PKR): Wheat: 4200/40kg, \<newline>Cotton: 8500, Rice: 5800\<newline>''))
   \<and> (getitem t ''wheat'' = getitem get_mandi_prices ''wheat'' \<and>
        getitem t ''cotton'' = getitem get_mandi_prices ''cotton'' \<and>
        getitem t ''rice'' = getitem get_mandi_prices ''rice'' \<longrightarrow>
        build_context p wth t = build_context p wth get_mandi_prices)"
proof (intro conjI impI)
  assume made: "c \<in> set (provider_calls (fst (chat p w req)))"
  from chat_call [OF made] obtain fetched ctx where
    fetched: "snd (get_weather p w (latitude req) (longitude req)) = Inr fetched" and
    ctx: "build_context p fetched get_mandi_prices = Inr ctx" and
    c: "c = \<lparr>call_model =
                 (case image req of None \<Rightarrow> ''llama-3.3-70b-versatile''
                  | Some img \<Rightarrow> ''llama-3.2-90b-vision-preview''),
               call_messages =
                 [\<lparr>role = ''system'', content = Text SYSTEM_PROMPT\<rparr>,
                  \<lparr>role = ''user'', content =
                     (case image req of
                        None \<Rightarrow> Text (''Context:\<newline>'' @ ctx @
                                  ''\<newline>\<newline>Farmer Query ('' @ language req @ ''): '' @
                                  message req)
                      | Some img \<Rightarrow> Parts
                          [TextPart (''Context:\<newline>'' @ ctx @
                             ''\<newline>\<newline>Analyze this crop image and provide advice ('' @
                             language req @ ''): '' @ message req),
                           ImageUrlPart (''data:image/jpeg;base64,'' @
                             b64encode (file_bytes img))])\<rparr>],
               call_temperature = 0.3, call_max_tokens = 2000,
               call_stream = None, call_n = None\<rparr>"
    by blast
  have "\<exists>rest. prompt_text c = ''Context:\<newline>'' @ ctx @ ''\<newline>\<newline>'' @ rest"
    by (subst c, cases "image req") (simp_all add: prompt_text_def)
  then obtain rest where
    prompt: "prompt_text c = ''Context:\<newline>'' @ ctx @ ''\<newline>\<newline>'' @ rest" ..
  have "\<exists>shown.
      (if truthy fetched
       then \<exists>cur. getitem fetched ''current'' = Inr cur \<and> shown = py_str p cur
       else shown = ''N/A'') \<and>
      ctx = ''\<newline>Current Weather: '' @ shown @
        ''\<newline>Mandi Prices (PKR): Wheat: 4200/40kg, \<newline>Cotton: 8500, Rice: 5800\<newline>''"
  proof (cases "truthy fetched")
    case False
    with ctx show ?thesis by (simp add: context_prices and_then_Inr)
  next
    case True
    show ?thesis
    proof (cases "getitem fetched ''current''")
      case (Inl e)
      with True ctx show ?thesis by (simp add: context_prices and_then_def)
    next
      case (Inr cur)
      with True ctx show ?thesis by (simp add: context_prices and_then_Inr)
    qed
  qed
  then obtain shown where
    shown: "if truthy fetched
       then \<exists>cur. getitem fetched ''current'' = Inr cur \<and> shown = py_str p cur
       else shown = ''N/A''" and
    form: "ctx = ''\<newline>Current Weather: '' @ shown @
        ''\<newline>Mandi Prices (PKR): Wheat: 4200/40kg, \<newline>Cotton: 8500, Rice: 5800\<newline>''"
    by blast
  have null: "fetched = JNull \<longrightarrow> shown = ''N/A''"
    using shown by auto
  have "prompt_text c =
      ''Context:\<newline>'' @ ''\<newline>Current Weather: '' @ shown @
      ''\<newline>Mandi Prices (PKR): Wheat: 4200/40kg, \<newline>Cotton: 8500, Rice: 5800\<newline>'' @
      ''\<newline>\<newline>'' @ rest"
    unfolding prompt form by simp
  with fetched shown null
  show "\<exists>fetched shown rest.
         snd (get_weather p w (latitude req) (longitude req)) = Inr fetched \<and>
         (if truthy fetched
          then \<exists>cur. getitem fetched ''current'' = Inr cur \<and> shown = py_str p cur
          else shown = ''N/A'') \<and>
         (fetched = JNull \<longrightarrow> shown = ''N/A'') \<and>
         prompt_text c =
           ''Context:\<newline>'' @
           ''\<newline>Current Weather: '' @ shown @
           ''\<newline>Mandi Prices (PKR): Wheat: 4200/40kg, \<newline>Cotton: 8500, Rice: 5800\<newline>'' @
           ''\<newline>\<newline>'' @ rest"
    by blast
next
  show "build_context p JNull get_mandi_prices =
     Inr ''\<newline>Current Weather: N/A\<newline>Mandi Prices (PKR): Wheat: 4200/40kg, \<newline>Cotton: 8500, Rice: 5800\<newline>''"
    using context_null [of p] by (simp add: null_context_def)
next
  assume "truthy wth \<and> getitem wth ''current'' = Inr cur"
  then show "build_context p wth get_mandi_prices =
      Inr (''\<newline>Current Weather: '' @ py_str p cur @
           ''\<newline>Mandi Prices (PKR): Wheat: 4200/40kg, \<newline>Cotton: 8500, Rice: 5800\<newline>'')"
    by (simp add: context_prices and_then_Inr)
next
  assume "getitem t ''wheat'' = getitem get_mandi_prices ''wheat'' \<and>
        getitem t ''cotton'' = getitem get_mandi_prices ''cotton'' \<and>
        getitem t ''rice'' = getitem get_mandi_prices ''rice''"
  then show "build_context p wth t = build_context p wth get_mandi_prices"
    unfolding build_context_def by simp
qed

theorem context_contents_witness:
  "sample_ok_call \<in> set (provider_calls (fst (chat sample_py world_ok text_request)))
   \<and> snd (get_weather sample_py world_ok (latitude text_request) (longitude text_request))
       = Inr sample_weather
   \<and> prompt_text sample_ok_call =
       ''Context:\<newline>'' @
       ''\<newline>Current Weather: '' @ sample_current_text @
       ''\<newline>Mandi Prices (PKR): Wheat: 4200/40kg, \<newline>Cotton: 8500, Rice: 5800\<newline>'' @
       ''\<newline>\<newline>'' @ ''Farmer Query (ur): gandum ka ilaj''
   \<and> sample_text_call \<in> set (provider_calls (fst (chat sample_py world_weather_500 text_request)))
   \<and> prompt_text sample_text_call =
       ''Context:\<newline>'' @
       ''\<newline>Current Weather: '' @ ''N/A'' @
       ''\<newline>Mandi Prices (PKR): Wheat: 4200/40kg, \<newline>Cotton: 8500, Rice: 5800\<newline>'' @
       ''\<newline>\<newline>'' @ ''Farmer Query (ur): gandum ka ilaj''
   \<and> truthy sample_weather \<and> getitem sample_weather ''current'' = Inr sample_current
   \<and> py_str sample_py sample_current = sample_current_text
   \<and> build_context sample_py sample_weather get_mandi_prices =
       Inr (''\<newline>Current Weather: '' @ sample_current_text @
            ''\<newline>Mandi Prices (PKR): Wheat: 4200/40kg, \<newline>Cotton: 8500, Rice: 5800\<newline>'')
   \<and> getitem three_prices ''wheat'' = getitem get_mandi_prices ''wheat''
   \<and> getitem three_prices ''cotton'' = getitem get_mandi_prices ''cotton''
   \<and> getitem three_prices ''rice'' = getitem get_mandi_prices ''rice''
   \<and> build_context sample_py sample_weather three_prices =
       build_context sample_py sample_weather get_mandi_prices"
proof -
  have made: "sample_ok_call \<in> set (provider_calls (fst (chat sample_py world_ok text_request)))"
    by (simp add: sample_ok_run)
  have made_null: "sample_text_call \<in>
      set (provider_calls (fst (chat sample_py world_weather_500 text_request)))"
    by (simp add: sample_text_run)
  have fetched: "snd (get_weather sample_py world_ok (latitude text_request)
      (longitude text_request)) = Inr sample_weather"
    by (simp add: get_weather_def Let_def world_ok_def)
  have prompts:
    "prompt_text sample_ok_call =
       ''Context:\<newline>'' @
       ''\<newline>Current Weather: '' @ sample_current_text @
       ''\<newline>Mandi Prices (PKR): Wheat: 4200/40kg, \<newline>Cotton: 8500, Rice: 5800\<newline>'' @
       ''\<newline>\<newline>'' @ ''Farmer Query (ur): gandum ka ilaj''"
    "prompt_text sample_text_call =
       ''Context:\<newline>'' @
       ''\<newline>Current Weather: '' @ ''N/A'' @
       ''\<newline>Mandi Prices (PKR): Wheat: 4200/40kg, \<newline>Cotton: 8500, Rice: 5800\<newline>'' @
       ''\<newline>\<newline>'' @ ''Farmer Query (ur): gandum ka ilaj''"
    by (simp_all add: prompt_text_def sample_ok_call_def sample_text_call_def
        sample_context_def null_context_def)
  have weather: "truthy sample_weather \<and> getitem sample_weather ''current'' = Inr sample_current"
    by (simp add: sample_current_text)
  have rendered: "py_str sample_py sample_current = sample_current_text"
    by (rule sample_current_text)
  have three: "getitem three_prices ''wheat'' = getitem get_mandi_prices ''wheat'' \<and>
      getitem three_prices ''cotton'' = getitem get_mandi_prices ''cotton'' \<and>
      getitem three_prices ''rice'' = getitem get_mandi_prices ''rice''"
    by (simp add: three_prices_def get_mandi_prices_def)
  from context_contents [of sample_ok_call sample_py world_ok text_request
      sample_weather sample_current three_prices]
    context_contents [of sample_text_call sample_py world_weather_500 text_request
      sample_weather sample_current three_prices]
    made made_null fetched prompts weather rendered three
  show ?thesis by simp
qed

end
